theory Spec2Isabelle
  imports Main "HOL-Library.AList" "HOL-Library.Sublist"
begin

section \<open>pyMHD: microhomology at deletions\<close>

text \<open>
  A shallow embedding of \<^verbatim>\<open>src/pyMHD/__init__.py\<close>: \<^verbatim>\<open>check_tool\<close>, \<^verbatim>\<open>searchKmer\<close>,
  \<^verbatim>\<open>mafMHD\<close> and \<^verbatim>\<open>vcfMHD\<close>. A Python \<^verbatim>\<open>str\<close> is a \<open>string\<close>, one \<open>char\<close> for each
  code point (so the text is restricted to code points below 256); a Python \<^verbatim>\<open>int\<close> is
  an \<open>int\<close>. An uncaught exception is the \<open>Inl\<close> of a sum; what a function does to the
  outside (the tools it looks for, the shell commands it starts, the lines it prints) is
  the list of events returned beside its result.
\<close>

subsection \<open>Python values, exceptions and built-in operations\<close>

datatype error =
    IndexError | ValueError | TypeError | KeyError | NameError
  | ImportError | OSError | UnicodeDecodeError

text \<open>What \<^verbatim>\<open>searchKmer\<close> hands back: \<^verbatim>\<open>None\<close> (its bare \<^verbatim>\<open>return\<close>), the int \<open>-1\<close>, or a str.\<close>

datatype pyval = PyNone | PyInt int | PyStr string

text \<open>The \<^verbatim>\<open>start\<close> argument: documented as an int, passed as a str by both callers.\<close>

datatype start_arg = IntArg int | StrArg string

datatype event = Which string | Popen string | Print string

text \<open>\<^verbatim>\<open>s[i]\<close>: a negative index counts from the end; out of range raises.\<close>

definition py_index :: "'a list \<Rightarrow> int \<Rightarrow> error + 'a" where
  "py_index xs i =
     (if 0 \<le> i \<and> i < int (length xs) then Inr (xs ! nat i)
      else if i < 0 \<and> - int (length xs) \<le> i then Inr (xs ! nat (int (length xs) + i))
      else Inl IndexError)"

text \<open>\<^verbatim>\<open>range(a, b, s)\<close> for a step \<open>s \<noteq> 0\<close> (the source only uses the steps 1 and -1).\<close>

definition py_range :: "int \<Rightarrow> int \<Rightarrow> int \<Rightarrow> int list" where
  "py_range a b s =
     (if 0 < s then map (\<lambda>k. a + int k * s) [0 ..< nat ((b - a + s - 1) div s)]
      else if s < 0 then map (\<lambda>k. a + int k * s) [0 ..< nat ((a - b - s - 1) div (- s))]
      else [])"

text \<open>\<^verbatim>\<open>s[:n]\<close> and \<^verbatim>\<open>s[n:]\<close>: a negative bound counts from the end, and bounds are clipped.\<close>

definition py_slice_to :: "'a list \<Rightarrow> int \<Rightarrow> 'a list" where
  "py_slice_to xs n = (if 0 \<le> n then take (nat n) xs else take (length xs - nat (- n)) xs)"

definition py_slice_from :: "'a list \<Rightarrow> int \<Rightarrow> 'a list" where
  "py_slice_from xs n = (if 0 \<le> n then drop (nat n) xs else drop (length xs - nat (- n)) xs)"

text \<open>\<^verbatim>\<open>str.isspace\<close> on one code point below 256, and \<^verbatim>\<open>str.strip()\<close>.\<close>

definition py_isspace :: "char \<Rightarrow> bool" where
  "py_isspace c = (of_char c \<in> set [9, 10, 11, 12, 13, 28, 29, 30, 31, 32, 133, 160 :: nat])"

definition py_strip :: "string \<Rightarrow> string" where
  "py_strip s = rev (dropWhile py_isspace (rev (dropWhile py_isspace s)))"

text \<open>
  CPython bounds the number of decimal digits in a conversion between int and str: with
  the default setting (\<^verbatim>\<open>sys.int_info.default_max_str_digits\<close>, since version 3.11) a number
  of more than 4300 digits raises \<^verbatim>\<open>ValueError\<close>, in \<^verbatim>\<open>str(n)\<close> and in \<^verbatim>\<open>int(s)\<close> alike.
\<close>

definition int_max_str_digits :: nat where
  "int_max_str_digits = 4300"

text \<open>\<^verbatim>\<open>str(n)\<close> for an int: decimal digits, with a minus sign below zero.\<close>

definition digit_char :: "nat \<Rightarrow> char" where
  "digit_char d = char_of (of_char CHR ''0'' + d)"

fun str_nat :: "nat \<Rightarrow> string" where
  "str_nat n = (if n < 10 then [digit_char n] else str_nat (n div 10) @ [digit_char (n mod 10)])"

declare str_nat.simps [simp del]

definition py_str :: "int \<Rightarrow> error + string" where
  "py_str i =
     (let digits = str_nat (nat \<bar>i\<bar>)
      in if int_max_str_digits < length digits then Inl ValueError
         else Inr (if i < 0 then CHR ''-'' # digits else digits))"

text \<open>
  \<^verbatim>\<open>int(x)\<close>: an int is returned as it is; a str is read as an optional sign followed by
  decimal digits, where single underscores may separate digits, with whitespace allowed
  before and after; anything else raises \<^verbatim>\<open>ValueError\<close>, and so do more than 4300 digits.
  The whitespace \<^verbatim>\<open>int\<close> skips is not that of \<^verbatim>\<open>str.strip()\<close>: of the code points below
  256 it is tab, line feed, vertical tab, form feed, carriage return, space, U+0085 and
  U+00A0, and not the separators U+001C to U+001F.
\<close>

definition int_isspace :: "char \<Rightarrow> bool" where
  "int_isspace c = (of_char c \<in> set [9, 10, 11, 12, 13, 32, 133, 160 :: nat])"

definition is_digit :: "char \<Rightarrow> bool" where
  "is_digit c = (c \<in> set ''0123456789'')"

fun digits_ok :: "string \<Rightarrow> bool" where
  "digits_ok [] = False"
| "digits_ok [c] = is_digit c"
| "digits_ok (c # d # cs) =
     (if is_digit c then digits_ok (d # cs)
      else c = CHR ''_'' \<and> is_digit d \<and> digits_ok (d # cs))"

definition digits_value :: "string \<Rightarrow> nat" where
  "digits_value cs = foldl (\<lambda>v c. 10 * v + (of_char c - of_char CHR ''0'')) 0 (filter is_digit cs)"

definition int_of_str :: "string \<Rightarrow> error + int" where
  "int_of_str s =
     (let t = rev (dropWhile int_isspace (rev (dropWhile int_isspace s)));
          neg = (t \<noteq> [] \<and> hd t = CHR ''-'');
          body = (if t \<noteq> [] \<and> (hd t = CHR ''-'' \<or> hd t = CHR ''+'') then tl t else t)
      in if body \<noteq> [] \<and> is_digit (hd body) \<and> digits_ok body
            \<and> length (filter is_digit body) \<le> int_max_str_digits
         then Inr (if neg then - int (digits_value body) else int (digits_value body))
         else Inl ValueError)"

fun py_int :: "start_arg \<Rightarrow> error + int" where
  "py_int (IntArg i) = Inr i"
| "py_int (StrArg s) = int_of_str s"

text \<open>\<^verbatim>\<open>' '.join(parts)\<close>.\<close>

fun join_space :: "string list \<Rightarrow> string" where
  "join_space [] = []"
| "join_space [p] = p"
| "join_space (p # q # ps) = p @ '' '' @ join_space (q # ps)"

subsection \<open>What \<^verbatim>\<open>cyvcf2\<close> gives\<close>

text \<open>
  \<^verbatim>\<open>cyvcf2\<close> is not part of the repository. Of a \<^verbatim>\<open>VCF\<close> object the code uses
  \<^verbatim>\<open>header_iter()\<close>, each item with an \<^verbatim>\<open>info()\<close> dict, and the iteration over the
  variants, each with \<^verbatim>\<open>CHROM\<close>, \<^verbatim>\<open>POS\<close>, \<^verbatim>\<open>REF\<close> and \<^verbatim>\<open>ALT\<close>. The argument of \<^verbatim>\<open>VCF(...)\<close>
  is whatever object the name given there is bound to.
\<close>

datatype pyobj = ModuleObj string | FunctionObj string | StrObj string

record vcf_variant =
  CHROM :: string
  POS :: int
  REF :: string
  ALT :: "string list"

record vcf_reader =
  header_iter :: "(string \<times> string) list list"
  vcf_variants :: "vcf_variant list"

subsection \<open>The outside world\<close>

text \<open>
  What the program reads from its surroundings, as functions it cannot change:
  whether \<^verbatim>\<open>shutil.which\<close> finds a tool, the lines a shell command writes (standard
  output and standard error together, as \<^verbatim>\<open>stderr=subprocess.STDOUT\<close> asks; a line
  that is not valid UTF-8 is \<open>None\<close>), the exit status \<^verbatim>\<open>wait()\<close> returns, the lines of
  a file (\<open>None\<close> when it cannot be opened), whether a module can be imported, and what
  \<^verbatim>\<open>VCF(x, gts012=True)\<close> gives for an object \<open>x\<close>.
\<close>

record world =
  on_path :: "string \<Rightarrow> bool"
  popen_lines :: "string \<Rightarrow> string option list"
  popen_exit :: "string \<Rightarrow> int"
  file_lines :: "string \<Rightarrow> string list option"
  importable :: "string \<Rightarrow> bool"
  vcf_open :: "pyobj \<Rightarrow> error + vcf_reader"

subsection \<open>\<^verbatim>\<open>check_tool\<close> and \<^verbatim>\<open>searchKmer\<close>\<close>

definition check_tool :: "world \<Rightarrow> string \<Rightarrow> bool" where
  "check_tool w name = on_path w name"

text \<open>
  Lines 49 to 53: every line of the output is decoded first (the list comprehension),
  then the lines that do not start with \<^verbatim>\<open>>\<close> are stripped and concatenated.
\<close>

definition decode_lines :: "string option list \<Rightarrow> error + string list" where
  "decode_lines ls = (if None \<in> set ls then Inl UnicodeDecodeError else Inr (map the ls))"

fun read_flankseq :: "string list \<Rightarrow> string \<Rightarrow> error + string" where
  "read_flankseq [] flankseq = Inr flankseq"
| "read_flankseq (fline # rest) flankseq =
     (case py_index fline 0 of
        Inl e \<Rightarrow> Inl e
      | Inr c \<Rightarrow> if c = CHR ''>'' then read_flankseq rest flankseq
                 else read_flankseq rest (flankseq @ py_strip fline))"

text \<open>
  The body shared by the two \<^verbatim>\<open>for\<close> loops (lines 70 to 74 with \<^verbatim>\<open>upstream\<close>, lines 79
  to 83 with \<^verbatim>\<open>downstream\<close>): compare \<^verbatim>\<open>ref[i]\<close> with \<^verbatim>\<open>flank[i]\<close>, append on a match,
  \<^verbatim>\<open>break\<close> otherwise. The first argument of the comparison is evaluated first.
\<close>

fun kmer_loop :: "string \<Rightarrow> string \<Rightarrow> int list \<Rightarrow> string \<Rightarrow> error + string" where
  "kmer_loop ref flank [] kmer = Inr kmer"
| "kmer_loop ref flank (i # rest) kmer =
     (case py_index ref i of
        Inl e \<Rightarrow> Inl e
      | Inr a \<Rightarrow>
          (case py_index flank i of
             Inl e \<Rightarrow> Inl e
           | Inr b \<Rightarrow> if a = b then kmer_loop ref flank rest (kmer @ [a]) else Inr kmer))"

text \<open>Lines 69 to 75: the upstream scan, reversed at the end.\<close>

definition upstream_scan :: "string \<Rightarrow> string \<Rightarrow> error + string" where
  "upstream_scan ref upstream =
     (case kmer_loop ref upstream (py_range (- 1) (- (int (length ref) + 1)) (- 1)) [] of
        Inl e \<Rightarrow> Inl e
      | Inr kmer \<Rightarrow> Inr (rev kmer))"

text \<open>Lines 77 to 84: the downstream scan, entered with the empty kmer, reversed at the end.\<close>

definition downstream_scan :: "string \<Rightarrow> string \<Rightarrow> string \<Rightarrow> error + string" where
  "downstream_scan ref downstream kmer =
     (case kmer_loop ref downstream (py_range 0 (int (length ref)) 1) kmer of
        Inl e \<Rightarrow> Inl e
      | Inr kmer' \<Rightarrow> Inr (rev kmer'))"

text \<open>Lines 67 to 86.\<close>

definition construct_kmer :: "string \<Rightarrow> string \<Rightarrow> string \<Rightarrow> error + string" where
  "construct_kmer ref upstream downstream =
     (case upstream_scan ref upstream of
        Inl e \<Rightarrow> Inl e
      | Inr kmer \<Rightarrow> if kmer = [] then downstream_scan ref downstream kmer else Inr kmer)"

text \<open>
  Lines 43 to 56, up to \<^verbatim>\<open>flankseq\<close>: the region string, the command, the lines it
  prints. \<^verbatim>\<open>int(start)\<close> and the two \<^verbatim>\<open>str(...)\<close> of line 44 can raise before the
  command is started. The exit status is bound to \<^verbatim>\<open>retvalUp\<close> and never read.
\<close>

definition faidx_cmd :: "string \<Rightarrow> int \<Rightarrow> string \<Rightarrow> string \<Rightarrow> int \<Rightarrow> error + string" where
  "faidx_cmd chrom s ref genome flankSize =
     (case py_str (s - flankSize) of
        Inl e \<Rightarrow> Inl e
      | Inr lo \<Rightarrow>
          (case py_str (s + int (length ref) + flankSize) of
             Inl e \<Rightarrow> Inl e
           | Inr hi \<Rightarrow>
               (let sequence = chrom @ '':'' @ lo @ ''-'' @ hi
                in Inr (join_space [''samtools'', ''faidx'', genome, sequence]))))"

definition fetch_flankseq ::
  "world \<Rightarrow> string \<Rightarrow> start_arg \<Rightarrow> string \<Rightarrow> string \<Rightarrow> int \<Rightarrow> (error + string) \<times> event list" where
  "fetch_flankseq w chrom start ref genome flankSize =
     (case py_int start of
        Inl e \<Rightarrow> (Inl e, [])
      | Inr s \<Rightarrow>
          (case faidx_cmd chrom s ref genome flankSize of
             Inl e \<Rightarrow> (Inl e, [])
           | Inr cmd \<Rightarrow>
               (case decode_lines (popen_lines w cmd) of
                  Inl e \<Rightarrow> (Inl e, [Popen cmd])
                | Inr flines \<Rightarrow>
                    (case read_flankseq flines [] of
                       Inl e \<Rightarrow> (Inl e, [Popen cmd])
                     | Inr flankseq \<Rightarrow>
                         (let retvalUp = popen_exit w cmd
                          in (Inr flankseq, [Popen cmd]))))))"

text \<open>Lines 61 to 65: the repeat finder is run when \<^verbatim>\<open>trfdir\<close> is given; any output line counts.\<close>

definition trf_cmd :: "string \<Rightarrow> string \<Rightarrow> string" where
  "trf_cmd flankseq trfdir =
     ''echo '' @ [CHR 0x22] @ ''>seq1'' @ [CHR 0x0A] @ flankseq @ [CHR 0x22] @ '' | ''
       @ trfdir @ '' - 2 7 7 80 10 50 7 -h -ngs''"

definition trf_found :: "world \<Rightarrow> string \<Rightarrow> string option \<Rightarrow> bool \<times> event list" where
  "trf_found w flankseq trfdir =
     (case trfdir of
        None \<Rightarrow> (False, [])
      | Some t \<Rightarrow>
          (let trfCmd = trf_cmd flankseq t
           in (length (popen_lines w trfCmd) > 0, [Popen trfCmd])))"

definition searchKmer ::
  "world \<Rightarrow> string \<Rightarrow> start_arg \<Rightarrow> string \<Rightarrow> string \<Rightarrow> int \<Rightarrow> string option
     \<Rightarrow> (error + pyval) \<times> event list" where
  "searchKmer w chrom start ref genome flankSize trfdir =
     (if \<not> check_tool w ''samtools'' then
        (Inr PyNone,
         [Which ''samtools'',
          Print ''ERROR: samtools not found in PATH'',
          Print ''Please install samtools and add to PATH''])
      else
        (case fetch_flankseq w chrom start ref genome flankSize of
           (Inl e, ev) \<Rightarrow> (Inl e, Which ''samtools'' # ev)
         | (Inr flankseq, ev) \<Rightarrow>
             (let upstream = py_slice_to flankseq flankSize;
                  downstream = py_slice_from flankseq (flankSize + int (length ref))
              in case trf_found w flankseq trfdir of
                   (True, ev') \<Rightarrow> (Inr (PyInt (- 1)), Which ''samtools'' # ev @ ev')
                 | (False, ev') \<Rightarrow>
                     (case construct_kmer ref upstream downstream of
                        Inl e \<Rightarrow> (Inl e, Which ''samtools'' # ev @ ev')
                      | Inr kmer \<Rightarrow> (Inr (PyStr kmer), Which ''samtools'' # ev @ ev')))))"

subsection \<open>The histogram and the counters\<close>

text \<open>
  \<^verbatim>\<open>mhdCount\<close> is a dict whose keys are the ints 0 to 9 and the str \<^verbatim>\<open>'10+'\<close>: an
  association list in insertion order. \<^verbatim>\<open>d[k] += 1\<close> raises \<^verbatim>\<open>KeyError\<close> when the key
  is missing.
\<close>

datatype pykey = KInt int | KStr string

type_synonym dict = "(pykey \<times> int) list"

definition dict_fromkeys :: "pykey list \<Rightarrow> int \<Rightarrow> dict" where
  "dict_fromkeys ks v = foldl (\<lambda>d k. AList.update k v d) [] ks"

definition dict_incr :: "pykey \<Rightarrow> dict \<Rightarrow> error + dict" where
  "dict_incr k d =
     (case map_of d k of
        None \<Rightarrow> Inl KeyError
      | Some v \<Rightarrow> Inr (AList.update k (v + 1) d))"

text \<open>Line 117 (and 226).\<close>

definition new_mhdCount :: dict where
  "new_mhdCount = dict_fromkeys (map KInt (py_range 0 10 1) @ [KStr ''10+'']) 0"

record counts =
  mhdCount :: dict
  variantCount :: int
  delCount :: int
  delFiltered :: int
  trfCount :: int

definition new_counts :: counts where
  "new_counts =
     \<lparr>mhdCount = new_mhdCount, variantCount = 0, delCount = 0, delFiltered = 0, trfCount = 0\<rparr>"

text \<open>Lines 175 and 176: \<^verbatim>\<open>for i in range(0, len(kmer)+1): mhdCount[i] += 1\<close>.\<close>

fun bump_buckets :: "int list \<Rightarrow> dict \<Rightarrow> error + dict" where
  "bump_buckets [] d = Inr d"
| "bump_buckets (i # rest) d =
     (case dict_incr (KInt i) d of
        Inl e \<Rightarrow> Inl e
      | Inr d' \<Rightarrow> bump_buckets rest d')"

text \<open>Lines 173 to 178 (and 263 to 268), for a kmer that is a str.\<close>

definition count_kmer :: "string \<Rightarrow> dict \<Rightarrow> error + dict" where
  "count_kmer kmer d =
     (if int (length kmer) < 10 then bump_buckets (py_range 0 (int (length kmer) + 1) 1) d
      else dict_incr (KStr ''10+'') d)"

text \<open>
  Lines 160 to 178 of \<^verbatim>\<open>mafMHD\<close>, which are lines 250 to 268 of \<^verbatim>\<open>vcfMHD\<close> word for
  word: the size filter, the call of \<^verbatim>\<open>searchKmer\<close>, the tandem-repeat count and the
  histogram. Every path ends the iteration, so the block yields the new counters or
  the exception. \<^verbatim>\<open>kmer == -1\<close> is false for \<^verbatim>\<open>None\<close> and for a str; \<^verbatim>\<open>len(kmer)\<close> raises
  \<^verbatim>\<open>TypeError\<close> for \<^verbatim>\<open>None\<close> and for an int.
\<close>

definition tally_deletion ::
  "world \<Rightarrow> string \<Rightarrow> start_arg \<Rightarrow> string \<Rightarrow> string \<Rightarrow> int \<Rightarrow> int \<Rightarrow> string option
     \<Rightarrow> 'a counts_scheme \<Rightarrow> (error + 'a counts_scheme) \<times> event list" where
  "tally_deletion w chrom start ref genome minDelSize flankSize trfdir st =
     (if int (length ref) < minDelSize then (Inr (st\<lparr>delFiltered := delFiltered st + 1\<rparr>), [])
      else
        (case searchKmer w chrom start ref genome flankSize trfdir of
           (Inl e, ev) \<Rightarrow> (Inl e, ev)
         | (Inr kmer, ev) \<Rightarrow>
             if kmer = PyInt (- 1) then (Inr (st\<lparr>trfCount := trfCount st + 1\<rparr>), ev)
             else
               (case kmer of
                  PyStr k \<Rightarrow>
                    (case count_kmer k (mhdCount st) of
                       Inl e \<Rightarrow> (Inl e, ev)
                     | Inr d \<Rightarrow> (Inr (st\<lparr>mhdCount := d\<rparr>), ev))
                | _ \<Rightarrow> (Inl TypeError, ev))))"

text \<open>Lines 157 and 158 (and 241 and 242): \<^verbatim>\<open>'chr' not in chrom\<close> is a substring test.\<close>

fun py_in :: "string \<Rightarrow> string \<Rightarrow> bool" where
  "py_in sub [] = (sub = [])"
| "py_in sub (c # cs) = (take (length sub) (c # cs) = sub \<or> py_in sub cs)"

definition format_chrom :: "string \<Rightarrow> string" where
  "format_chrom chrom = (if \<not> py_in ''chr'' chrom then ''chr'' @ chrom else chrom)"

text \<open>Lines 180 and 181.\<close>

definition sampleInfo :: "'a counts_scheme \<Rightarrow> (string \<times> int) list" where
  "sampleInfo st =
     [(''Total Variants'', variantCount st), (''Deletions'', delCount st),
      (''minDelFiltered'', delFiltered st), (''Short Tandem Repeat Filtered'', trfCount st)]"

subsection \<open>\<^verbatim>\<open>mafMHD\<close>\<close>

text \<open>\<^verbatim>\<open>line.split('\t')\<close> and \<^verbatim>\<open>list.index\<close>.\<close>

fun py_split :: "char \<Rightarrow> string \<Rightarrow> string list" where
  "py_split sep [] = [[]]"
| "py_split sep (c # cs) =
     (if c = sep then [] # py_split sep cs
      else (case py_split sep cs of
              [] \<Rightarrow> [[c]]
            | x # xs \<Rightarrow> (c # x) # xs))"

fun list_index :: "'a list \<Rightarrow> 'a \<Rightarrow> error + nat" where
  "list_index [] x = Inl ValueError"
| "list_index (y # ys) x =
     (if y = x then Inr 0
      else (case list_index ys x of Inl e \<Rightarrow> Inl e | Inr n \<Rightarrow> Inr (Suc n)))"

text \<open>
  The locals of the loop: the counters and the five column indices, unbound (\<open>None\<close>)
  until a header line has been read.
\<close>

record maf_locals = counts +
  variantTypeInd :: "nat option"
  chromInd :: "nat option"
  startInd :: "nat option"
  endInd :: "nat option"
  refInd :: "nat option"

definition new_maf_locals :: maf_locals where
  "new_maf_locals =
     counts.extend new_counts
       \<lparr>variantTypeInd = None, chromInd = None, startInd = None, endInd = None, refInd = None\<rparr>"

text \<open>
  One read inside the \<^verbatim>\<open>try\<close> of lines 139 to 148: an unbound index variable and an
  index past the end of the line both raise, and the bare \<^verbatim>\<open>except\<close> catches both.
\<close>

definition get_col :: "string list \<Rightarrow> nat option \<Rightarrow> string option" where
  "get_col lineSplit ind =
     (case ind of
        None \<Rightarrow> None
      | Some k \<Rightarrow> if k < length lineSplit then Some (lineSplit ! k) else None)"

text \<open>
  How one iteration ends: go on with the next line, leave the function by the bare
  \<^verbatim>\<open>return\<close> of line 148 (the caller gets \<^verbatim>\<open>None\<close>), or raise.
\<close>

datatype 's flow = Continue 's | ReturnNone | Raise error

type_synonym summary = "(dict \<times> (string \<times> int) list) option"

text \<open>Lines 130 to 136: the header line.\<close>

definition maf_header :: "string list \<Rightarrow> maf_locals \<Rightarrow> error + maf_locals" where
  "maf_header lineSplit st =
     (case list_index lineSplit ''Variant_Type'' of Inl e \<Rightarrow> Inl e | Inr a \<Rightarrow>
     (case list_index lineSplit ''Chromosome'' of Inl e \<Rightarrow> Inl e | Inr b \<Rightarrow>
     (case list_index lineSplit ''Start_position'' of Inl e \<Rightarrow> Inl e | Inr c \<Rightarrow>
     (case list_index lineSplit ''End_position'' of Inl e \<Rightarrow> Inl e | Inr d \<Rightarrow>
     (case list_index lineSplit ''Reference_Allele'' of Inl e \<Rightarrow> Inl e | Inr r \<Rightarrow>
        Inr (st\<lparr>variantTypeInd := Some a, chromInd := Some b, startInd := Some c,
                endInd := Some d, refInd := Some r\<rparr>))))))"

text \<open>Lines 138 to 178: a line that is neither a comment nor a header.\<close>

definition maf_record ::
  "world \<Rightarrow> string \<Rightarrow> int \<Rightarrow> int \<Rightarrow> string option \<Rightarrow> maf_locals \<Rightarrow> string list
     \<Rightarrow> maf_locals flow \<times> event list" where
  "maf_record w genome minDelSize flankSize trfdir st lineSplit =
     (let st1 = st\<lparr>variantCount := variantCount st + 1\<rparr>;
          failed = (ReturnNone,
                    [Print ''ERROR: Required columns not found in MAF file'',
                     Print ''Please Check file for [Chromosome, Start_position, End_position, Reference_allele, Variant_Type] columns''])
      in case get_col lineSplit (variantTypeInd st1) of None \<Rightarrow> failed | Some variantType \<Rightarrow>
        (case get_col lineSplit (chromInd st1) of None \<Rightarrow> failed | Some chrom \<Rightarrow>
        (case get_col lineSplit (startInd st1) of None \<Rightarrow> failed | Some start \<Rightarrow>
        (case get_col lineSplit (endInd st1) of None \<Rightarrow> failed | Some end_position \<Rightarrow>
        (case get_col lineSplit (refInd st1) of None \<Rightarrow> failed | Some ref \<Rightarrow>
           if variantType \<noteq> ''DEL'' then (Continue st1, [])
           else
             (let st2 = st1\<lparr>delCount := delCount st1 + 1\<rparr>
              in case tally_deletion w (format_chrom chrom) (StrArg start) ref genome
                        minDelSize flankSize trfdir st2 of
                   (Inl e, ev) \<Rightarrow> (Raise e, ev)
                 | (Inr st3, ev) \<Rightarrow> (Continue st3, ev)))))))"

text \<open>Lines 123 to 178: the body of the loop over the lines of the file.\<close>

definition maf_line ::
  "world \<Rightarrow> string \<Rightarrow> int \<Rightarrow> int \<Rightarrow> string option \<Rightarrow> maf_locals \<Rightarrow> string
     \<Rightarrow> maf_locals flow \<times> event list" where
  "maf_line w genome minDelSize flankSize trfdir st line =
     (if take 1 line = ''#'' then (Continue st, [])
      else
        (let lineSplit = py_split (CHR 0x09) line
         in if ''Hugo_Symbol'' \<in> set lineSplit then
              (case maf_header lineSplit st of
                 Inl e \<Rightarrow> (Raise e, [])
               | Inr st' \<Rightarrow> (Continue st', []))
            else maf_record w genome minDelSize flankSize trfdir st lineSplit))"

fun maf_loop ::
  "world \<Rightarrow> string \<Rightarrow> int \<Rightarrow> int \<Rightarrow> string option \<Rightarrow> maf_locals \<Rightarrow> string list
     \<Rightarrow> maf_locals flow \<times> event list" where
  "maf_loop w genome minDelSize flankSize trfdir st [] = (Continue st, [])"
| "maf_loop w genome minDelSize flankSize trfdir st (line # rest) =
     (case maf_line w genome minDelSize flankSize trfdir st line of
        (Continue st', ev) \<Rightarrow>
          (case maf_loop w genome minDelSize flankSize trfdir st' rest of
             (r, ev') \<Rightarrow> (r, ev @ ev'))
      | (r, ev) \<Rightarrow> (r, ev))"

definition mafMHD ::
  "world \<Rightarrow> string \<Rightarrow> string \<Rightarrow> int \<Rightarrow> int \<Rightarrow> string option
     \<Rightarrow> (error + summary) \<times> event list" where
  "mafMHD w maf genome minDelSize flankSize trfdir =
     (case file_lines w maf of
        None \<Rightarrow> (Inl OSError, [])
      | Some lines \<Rightarrow>
          (case maf_loop w genome minDelSize flankSize trfdir new_maf_locals lines of
             (Continue st, ev) \<Rightarrow> (Inr (Some (mhdCount st, sampleInfo st)), ev)
           | (ReturnNone, ev) \<Rightarrow> (Inr None, ev)
           | (Raise e, ev) \<Rightarrow> (Inl e, ev)))"

subsection \<open>\<^verbatim>\<open>vcfMHD\<close>\<close>

text \<open>
  A name that a function neither takes as a parameter nor assigns is looked up in the
  globals of the module, then among the builtins. The module binds the five names
  below (its import and its four functions); the names Python predefines in a module
  and the builtins do not include \<^verbatim>\<open>vcf_file\<close>. The locals of \<^verbatim>\<open>vcfMHD\<close> are its
  parameters \<^verbatim>\<open>vcf\<close>, \<^verbatim>\<open>genome\<close>, \<^verbatim>\<open>minDelSize\<close>, \<^verbatim>\<open>flankSize\<close>, \<^verbatim>\<open>trfdir\<close> and the names it
  assigns; \<^verbatim>\<open>vcf_file\<close> is not one of them.
\<close>

definition module_globals :: "(string \<times> pyobj) list" where
  "module_globals =
     [(''subprocess'', ModuleObj ''subprocess''),
      (''check_tool'', FunctionObj ''check_tool''),
      (''searchKmer'', FunctionObj ''searchKmer''),
      (''mafMHD'', FunctionObj ''mafMHD''),
      (''vcfMHD'', FunctionObj ''vcfMHD'')]"

definition load_global :: "string \<Rightarrow> error + pyobj" where
  "load_global name =
     (case map_of module_globals name of
        None \<Rightarrow> Inl NameError
      | Some v \<Rightarrow> Inr v)"

text \<open>Lines 213 to 223: the two lists of header ids (never read afterwards).\<close>

definition header_fields :: "string \<Rightarrow> (string \<times> string) list list \<Rightarrow> string option list" where
  "header_fields kind hs = map (\<lambda>h. map_of h ''ID'') (filter (\<lambda>h. map_of h ''HeaderType'' = Some kind) hs)"

text \<open>
  Lines 234 to 268: the loop over the alternative alleles of one variant (its counter
  \<^verbatim>\<open>altNum\<close> is never read and is left out).
\<close>

fun vcf_alts ::
  "world \<Rightarrow> string \<Rightarrow> int \<Rightarrow> int \<Rightarrow> string option \<Rightarrow> vcf_variant \<Rightarrow> counts \<Rightarrow> string list
     \<Rightarrow> (error + counts) \<times> event list" where
  "vcf_alts w genome minDelSize flankSize trfdir variant st [] = (Inr st, [])"
| "vcf_alts w genome minDelSize flankSize trfdir variant st (alt # rest) =
     (case py_str (POS variant) of
        Inl e \<Rightarrow> (Inl e, [])
      | Inr pos \<Rightarrow>
          (let chrom = format_chrom (CHROM variant);
               start = StrArg pos;
               ref = REF variant
           in if length ref > length alt then
                (case tally_deletion w chrom start ref genome minDelSize flankSize trfdir
                        (st\<lparr>delCount := delCount st + 1\<rparr>) of
                   (Inl e, ev) \<Rightarrow> (Inl e, ev)
                 | (Inr st', ev) \<Rightarrow>
                     (case vcf_alts w genome minDelSize flankSize trfdir variant st' rest of
                        (r, ev') \<Rightarrow> (r, ev @ ev')))
              else vcf_alts w genome minDelSize flankSize trfdir variant st rest))"

text \<open>Lines 231 to 268: the loop over the variants.\<close>

fun vcf_loop ::
  "world \<Rightarrow> string \<Rightarrow> int \<Rightarrow> int \<Rightarrow> string option \<Rightarrow> counts \<Rightarrow> vcf_variant list
     \<Rightarrow> (error + counts) \<times> event list" where
  "vcf_loop w genome minDelSize flankSize trfdir st [] = (Inr st, [])"
| "vcf_loop w genome minDelSize flankSize trfdir st (variant # rest) =
     (case vcf_alts w genome minDelSize flankSize trfdir variant
             (st\<lparr>variantCount := variantCount st + 1\<rparr>) (ALT variant) of
        (Inl e, ev) \<Rightarrow> (Inl e, ev)
      | (Inr st', ev) \<Rightarrow>
          (case vcf_loop w genome minDelSize flankSize trfdir st' rest of
             (r, ev') \<Rightarrow> (r, ev @ ev')))"

text \<open>
  Lines 208 to 271. The parameter \<^verbatim>\<open>vcf\<close> is never read: line 211 reads \<^verbatim>\<open>vcf_file\<close> and
  assigns the reader it gets to \<^verbatim>\<open>vcf\<close>.
\<close>

definition vcfMHD ::
  "world \<Rightarrow> string \<Rightarrow> string \<Rightarrow> int \<Rightarrow> int \<Rightarrow> string option
     \<Rightarrow> (error + dict \<times> (string \<times> int) list) \<times> event list" where
  "vcfMHD w vcf genome minDelSize flankSize trfdir =
     (if \<not> importable w ''cyvcf2'' then (Inl ImportError, [])
      else
        (case load_global ''vcf_file'' of
           Inl e \<Rightarrow> (Inl e, [])
         | Inr vcf_file \<Rightarrow>
             (case vcf_open w vcf_file of
                Inl e \<Rightarrow> (Inl e, [])
              | Inr reader \<Rightarrow>
                  (let format_fields = header_fields ''FORMAT'' (header_iter reader);
                       info_fields = header_fields ''INFO'' (header_iter reader)
                   in case vcf_loop w genome minDelSize flankSize trfdir new_counts
                             (vcf_variants reader) of
                        (Inl e, ev) \<Rightarrow> (Inl e, ev)
                      | (Inr st, ev) \<Rightarrow> (Inr (mhdCount st, sampleInfo st), ev)))))"

subsection \<open>What the two error paths print\<close>




subsection \<open>The scans as the specification words them\<close>

text \<open>
  "The longest suffix of \<^verbatim>\<open>referenceAllele\<close> that equals the matching suffix of
  \<^verbatim>\<open>upstream\<close>" and "the longest prefix of \<^verbatim>\<open>referenceAllele\<close> that equals the matching
  prefix of \<^verbatim>\<open>downstream\<close>", both in the order of the reference.
\<close>

definition spec_downstream_kmer :: "string \<Rightarrow> string \<Rightarrow> string" where
  "spec_downstream_kmer ref downstream = longest_common_prefix ref downstream"

definition spec_upstream_kmer :: "string \<Rightarrow> string \<Rightarrow> string" where
  "spec_upstream_kmer ref upstream = rev (longest_common_prefix (rev ref) (rev upstream))"

subsection \<open>Worlds and files for the examples\<close>

text \<open>
  A world in which \<^verbatim>\<open>samtools\<close> is on the path or not, every \<^verbatim>\<open>samtools\<close> command prints
  the lines \<open>fasta\<close> and ends with \<open>status\<close>, every other command (the repeat finder)
  prints the lines \<open>repeats\<close>, every file has the lines \<open>maf\<close>, and \<^verbatim>\<open>cyvcf2\<close> is installed.
\<close>

definition lab_world :: "bool \<Rightarrow> string list \<Rightarrow> int \<Rightarrow> string list \<Rightarrow> string list \<Rightarrow> world" where
  "lab_world samtools fasta status repeats maf =
     \<lparr>on_path = (\<lambda>name. name = ''samtools'' \<and> samtools),
      popen_lines = (\<lambda>cmd. if take 8 cmd = ''samtools'' then map Some fasta else map Some repeats),
      popen_exit = (\<lambda>cmd. status),
      file_lines = (\<lambda>path. Some maf),
      importable = (\<lambda>name. name = ''cyvcf2''),
      vcf_open = (\<lambda>x. Inl OSError)\<rparr>"

definition nl :: string where
  "nl = [CHR 0x0A]"

definition tab :: string where
  "tab = [CHR 0x09]"

text \<open>Upstream \<^verbatim>\<open>TT\<close>, deletion \<^verbatim>\<open>ACG\<close>, downstream \<^verbatim>\<open>ACT\<close>.\<close>

definition fasta_downstream :: "string list" where
  "fasta_downstream = [''>chr1:98-105'' @ nl, ''TTACGACT'' @ nl]"

text \<open>
  Upstream \<^verbatim>\<open>CAGT\<close>, deletion \<^verbatim>\<open>ACGT\<close>, downstream \<^verbatim>\<open>ACGG\<close>: two bases match upstream,
  three downstream.
\<close>

definition fasta_both :: "string list" where
  "fasta_both = [''>chr1:96-108'' @ nl, ''CAGTACGTACGG'' @ nl]"

text \<open>Upstream \<^verbatim>\<open>GT\<close>, deletion \<^verbatim>\<open>AGT\<close>, downstream \<^verbatim>\<open>CC\<close>: the flank is shorter than the deletion.\<close>

definition fasta_short_flank :: "string list" where
  "fasta_short_flank = [''>chr1:98-105'' @ nl, ''GTAGTCC'' @ nl]"

text \<open>What a failed retrieval leaves: one line of complaint and no sequence.\<close>

definition fasta_failed :: "string list" where
  "fasta_failed = [''[faidx] Failed to fetch sequence in chr1:98-104'' @ nl]"


text \<open>The same header, a deletion of three bases and a deletion of six.\<close>

definition maf_two_dels :: "string list" where
  "maf_two_dels =
     [''Hugo_Symbol'' @ tab @ ''Chromosome'' @ tab @ ''Start_position'' @ tab @ ''End_position''
        @ tab @ ''Variant_Type'' @ tab @ ''Reference_Allele'' @ tab @ ''Tumor_Seq_Allele2'' @ nl,
      ''BRCA2'' @ tab @ ''13'' @ tab @ ''100'' @ tab @ ''102''
        @ tab @ ''DEL'' @ tab @ ''ACG'' @ tab @ ''-'' @ nl,
      ''BRCA2'' @ tab @ ''chr13'' @ tab @ ''100'' @ tab @ ''103''
        @ tab @ ''DEL'' @ tab @ ''ACGT'' @ tab @ ''-'' @ nl]"

section \<open>Properties of \<^verbatim>\<open>searchKmer\<close>\<close>

subsection \<open>The two index ranges\<close>

lemma py_range_up: "py_range 0 (int n) 1 = map int [0 ..< n]"
  by (simp add: py_range_def)

lemma py_range_down: "py_range (- 1) (- (int n + 1)) (- 1) = map (\<lambda>k. - 1 - int k) [0 ..< n]"
  by (simp add: py_range_def)

subsection \<open>The length of the kmer\<close>

lemma kmer_loop_length:
  "kmer_loop ref flank idx acc = Inr k \<Longrightarrow> length k \<le> length acc + length idx"
proof (induction idx arbitrary: acc)
  case Nil
  then show ?case by simp
next
  case (Cons i idx)
  then show ?case
    by (fastforce split: sum.splits if_splits)
qed

lemma upstream_scan_length: "upstream_scan ref upstream = Inr k \<Longrightarrow> length k \<le> length ref"
  unfolding upstream_scan_def py_range_down
  using kmer_loop_length [of ref upstream "map (\<lambda>k. - 1 - int k) [0 ..< length ref]" "[]"]
  by (auto split: sum.splits)

lemma downstream_scan_length:
  "downstream_scan ref downstream [] = Inr k \<Longrightarrow> length k \<le> length ref"
  unfolding downstream_scan_def py_range_up
  using kmer_loop_length [of ref downstream "map int [0 ..< length ref]" "[]"]
  by (auto split: sum.splits)

lemma construct_kmer_length:
  "construct_kmer ref upstream downstream = Inr k \<Longrightarrow> length k \<le> length ref"
  by (auto simp: construct_kmer_def split: sum.splits if_splits
      dest: upstream_scan_length downstream_scan_length)

text \<open>
  Claim C2. Whenever \<^verbatim>\<open>searchKmer\<close> returns a str (not \<^verbatim>\<open>None\<close>, not \<open>-1\<close>, no exception),
  that kmer is at most as long as the reference allele. This holds for every reference
  allele, the empty one included, in every world.
\<close>

theorem searchKmer_kmer_length:
  "fst (searchKmer w chrom start ref genome flankSize trfdir) = Inr (PyStr kmer)
     \<Longrightarrow> length kmer \<le> length ref"
  by (auto simp: searchKmer_def Let_def split: if_splits sum.splits prod.splits bool.splits
      dest: construct_kmer_length)

theorem searchKmer_kmer_length_witness:
  "fst (searchKmer (lab_world True fasta_both 0 [] []) ''chr1'' (StrArg ''100'') ''ACGT''
          ''hg19.fa'' 4 None) = Inr (PyStr ''GT'')
   \<and> length ''GT'' \<le> length ''ACGT''"
proof -
  have h: "fst (searchKmer (lab_world True fasta_both 0 [] []) ''chr1'' (StrArg ''100'') ''ACGT''
                  ''hg19.fa'' 4 None) = Inr (PyStr ''GT'')"
    by code_simp
  from searchKmer_kmer_length [OF h] h show ?thesis by simp
qed

subsection \<open>What the two scans compute\<close>

lemma py_index_nat:
  "py_index xs (int j) = (if j < length xs then Inr (xs ! j) else Inl IndexError)"
  by (simp add: py_index_def)

lemma py_index_neg: "py_index xs (- 1 - int k) = py_index (rev xs) (int k)"
proof (cases "k < length xs")
  case True
  then have "nat (int (length xs) + (- 1 - int k)) = length xs - Suc k" by simp
  with True show ?thesis by (simp add: py_index_def rev_nth)
next
  case False
  then show ?thesis by (simp add: py_index_def)
qed

text \<open>The backward loop is the forward loop on the reversed strings.\<close>

lemma kmer_loop_rev:
  "kmer_loop ref flank (map (\<lambda>k. - 1 - int k) ks) acc
     = kmer_loop (rev ref) (rev flank) (map int ks) acc"
  by (induction ks arbitrary: acc) (simp_all add: py_index_neg split: sum.splits)

text \<open>
  The forward loop from position \<open>j\<close>: it raises exactly when the flank runs out before a
  mismatch and before the reference does, and otherwise appends the longest common
  prefix of what is left of the two strings.
\<close>

lemma kmer_loop_forward:
  "j \<le> length ref \<Longrightarrow>
   kmer_loop ref flank (map int [j ..< length ref]) acc =
     (if strict_prefix (drop j flank) (drop j ref) then Inl IndexError
      else Inr (acc @ longest_common_prefix (drop j ref) (drop j flank)))"
proof (induction "length ref - j" arbitrary: j acc)
  case 0
  then show ?case by simp
next
  case (Suc d)
  then have j: "j < length ref" by simp
  then have idx: "[j ..< length ref] = j # [Suc j ..< length ref]" by (simp add: upt_conv_Cons)
  have dr: "drop j ref = ref ! j # drop (Suc j) ref" using j by (simp add: Cons_nth_drop_Suc)
  show ?case
  proof (cases "j < length flank")
    case False
    then show ?thesis using j by (simp add: idx py_index_nat dr)
  next
    case True
    then have df: "drop j flank = flank ! j # drop (Suc j) flank"
      by (simp add: Cons_nth_drop_Suc)
    have ih: "kmer_loop ref flank (map int [Suc j ..< length ref]) (acc @ [ref ! j]) =
      (if strict_prefix (drop (Suc j) flank) (drop (Suc j) ref) then Inl IndexError
       else Inr ((acc @ [ref ! j])
                   @ longest_common_prefix (drop (Suc j) ref) (drop (Suc j) flank)))"
      using Suc.hyps(1) [of "Suc j" "acc @ [ref ! j]"] Suc.hyps(2) j by simp
    show ?thesis
    proof (cases "ref ! j = flank ! j")
      case same: True
      with j True ih show ?thesis by (simp add: idx py_index_nat dr df)
    next
      case False
      with j True show ?thesis by (simp add: idx py_index_nat dr df)
    qed
  qed
qed

lemma downstream_scan_eq:
  "downstream_scan ref downstream [] =
     (if strict_prefix downstream ref then Inl IndexError
      else Inr (rev (spec_downstream_kmer ref downstream)))"
  unfolding downstream_scan_def py_range_up spec_downstream_kmer_def
  using kmer_loop_forward [of 0 ref downstream "[]"] by simp

lemma upstream_scan_eq:
  "upstream_scan ref upstream =
     (if strict_suffix upstream ref then Inl IndexError
      else Inr (spec_upstream_kmer ref upstream))"
proof -
  have "kmer_loop ref upstream (map (\<lambda>k. - 1 - int k) [0 ..< length ref]) [] =
     (if strict_prefix (rev upstream) (rev ref) then Inl IndexError
      else Inr (longest_common_prefix (rev ref) (rev upstream)))"
    using kmer_loop_forward [of 0 "rev ref" "rev upstream" "[]"] by (simp add: kmer_loop_rev)
  moreover have "strict_prefix (rev upstream) (rev ref) = strict_suffix upstream ref"
    by (auto simp: strict_prefix_def strict_suffix_def suffix_to_prefix)
  ultimately show ?thesis
    unfolding upstream_scan_def py_range_down spec_upstream_kmer_def by simp
qed

text \<open>
  Claim C1 says that, when the upstream scan finds nothing, the downstream scan returns
  the longest common prefix of the reference allele and the downstream flank in the
  order of the reference. The code reverses what the forward loop collected (line 84
  repeats line 75): with upstream \<^verbatim>\<open>TT\<close>, deletion \<^verbatim>\<open>ACG\<close> and downstream \<^verbatim>\<open>ACT\<close> the
  upstream scan is empty, the longest common prefix is \<^verbatim>\<open>AC\<close>, and \<^verbatim>\<open>searchKmer\<close>
  returns \<^verbatim>\<open>CA\<close>.
\<close>

theorem searchKmer_downstream_reversed:
  "upstream_scan ''ACG'' ''TT'' = Inr ''''
   \<and> spec_downstream_kmer ''ACG'' ''ACT'' = ''AC''
   \<and> fst (searchKmer (lab_world True fasta_downstream 0 [] []) ''chr1'' (StrArg ''100'') ''ACG''
            ''hg19.fa'' 2 None) = Inr (PyStr ''CA'')"
  by code_simp

text \<open>
  Claim C9 says that the scans stop when either string is exhausted and never read past
  the end of a flank. The loops are bounded by the reference allele alone: with
  upstream \<^verbatim>\<open>GT\<close> and deletion \<^verbatim>\<open>AGT\<close> the third comparison reads \<^verbatim>\<open>upstream[-3]\<close> and
  raises \<^verbatim>\<open>IndexError\<close>; so does the first comparison when the retrieval printed nothing
  and the flanks are empty, with the default flank size of 100.
\<close>

theorem searchKmer_short_flank_raises:
  "py_slice_to ''GTAGTCC'' 2 = ''GT''
   \<and> searchKmer (lab_world True fasta_short_flank 0 [] []) ''chr1'' (StrArg ''100'') ''AGT''
        ''hg19.fa'' 2 None
       = (Inl IndexError, [Which ''samtools'', Popen ''samtools faidx hg19.fa chr1:98-105''])
   \<and> fst (searchKmer (lab_world True [] 1 [] []) ''chr1'' (StrArg ''100'') ''AGT''
            ''hg19.fa'' 100 None) = Inl IndexError"
  by code_simp

subsection \<open>Upstream before downstream\<close>

lemma construct_kmer_upstream:
  "upstream_scan ref upstream = Inr kmer \<Longrightarrow> kmer \<noteq> []
     \<Longrightarrow> construct_kmer ref upstream downstream = Inr kmer"
  by (simp add: construct_kmer_def)

lemma construct_kmer_downstream:
  "upstream_scan ref upstream = Inr []
     \<Longrightarrow> construct_kmer ref upstream downstream = downstream_scan ref downstream []"
  by (simp add: construct_kmer_def)

text \<open>
  Claim C3. When the scans are reached (the tool is there, the window was fetched, the
  repeat filter did not exclude it) and the upstream scan yields a kmer that is not
  empty, \<^verbatim>\<open>searchKmer\<close> returns that kmer. Nothing is assumed about the part of the
  window after the upstream flank: lines 67 to 86 give the upstream kmer for every
  downstream flank, so the downstream flank is not consulted.
\<close>

theorem searchKmer_upstream_first:
  assumes "check_tool w ''samtools''"
    and "fst (fetch_flankseq w chrom start ref genome flankSize) = Inr flankseq"
    and "\<not> fst (trf_found w flankseq trfdir)"
    and "upstream_scan ref (py_slice_to flankseq flankSize) = Inr kmer"
    and "kmer \<noteq> []"
  shows "fst (searchKmer w chrom start ref genome flankSize trfdir) = Inr (PyStr kmer)
     \<and> construct_kmer ref (py_slice_to flankseq flankSize) downstream = Inr kmer"
  using assms
  by (auto simp: searchKmer_def Let_def construct_kmer_upstream
      split: prod.splits sum.splits bool.splits)

theorem searchKmer_upstream_first_witness:
  "check_tool (lab_world True fasta_both 0 [] []) ''samtools''
   \<and> fst (fetch_flankseq (lab_world True fasta_both 0 [] []) ''chr1'' (StrArg ''100'') ''ACGT''
            ''hg19.fa'' 4) = Inr ''CAGTACGTACGG''
   \<and> \<not> fst (trf_found (lab_world True fasta_both 0 [] []) ''CAGTACGTACGG'' None)
   \<and> upstream_scan ''ACGT'' (py_slice_to ''CAGTACGTACGG'' 4) = Inr ''GT''
   \<and> downstream_scan ''ACGT'' (py_slice_from ''CAGTACGTACGG'' (4 + int (length ''ACGT''))) []
       = Inr ''GCA''
   \<and> fst (searchKmer (lab_world True fasta_both 0 [] []) ''chr1'' (StrArg ''100'') ''ACGT''
            ''hg19.fa'' 4 None) = Inr (PyStr ''GT'')"
proof -
  let ?w = "lab_world True fasta_both 0 [] []"
  have a: "check_tool ?w ''samtools''" by code_simp
  have b: "fst (fetch_flankseq ?w ''chr1'' (StrArg ''100'') ''ACGT'' ''hg19.fa'' 4)
             = Inr ''CAGTACGTACGG''"
    by code_simp
  have c: "\<not> fst (trf_found ?w ''CAGTACGTACGG'' None)" by code_simp
  have d: "upstream_scan ''ACGT'' (py_slice_to ''CAGTACGTACGG'' 4) = Inr ''GT''" by code_simp
  have e: "''GT'' \<noteq> []" by simp
  have f: "downstream_scan ''ACGT'' (py_slice_from ''CAGTACGTACGG'' (4 + int (length ''ACGT''))) []
             = Inr ''GCA''"
    by code_simp
  from searchKmer_upstream_first [OF a b c d e] a b c d f show ?thesis by blast
qed

subsection \<open>The repeat filter\<close>

text \<open>
  Claim C4. With a repeat filter given, a fetched window and at least one line printed
  by the repeat finder, \<^verbatim>\<open>searchKmer\<close> returns \<open>-1\<close> and the last thing it did was to
  start the repeat finder. The reference allele and the window are arbitrary, so the
  result does not depend on the scans; in the example below they would have raised.
\<close>

theorem searchKmer_repeat_first:
  assumes "check_tool w ''samtools''"
    and "fetch_flankseq w chrom start ref genome flankSize = (Inr flankseq, ev)"
    and "popen_lines w (trf_cmd flankseq t) \<noteq> []"
  shows "searchKmer w chrom start ref genome flankSize (Some t)
           = (Inr (PyInt (- 1)), Which ''samtools'' # ev @ [Popen (trf_cmd flankseq t)])"
  using assms
  by (simp add: searchKmer_def trf_found_def Let_def)

theorem searchKmer_repeat_first_witness:
  "check_tool (lab_world True fasta_short_flank 0 [''repeat''] []) ''samtools''
   \<and> fetch_flankseq (lab_world True fasta_short_flank 0 [''repeat''] []) ''chr1'' (StrArg ''100'')
        ''AGT'' ''hg19.fa'' 2 = (Inr ''GTAGTCC'', [Popen ''samtools faidx hg19.fa chr1:98-105''])
   \<and> popen_lines (lab_world True fasta_short_flank 0 [''repeat''] []) (trf_cmd ''GTAGTCC'' ''trf'')
        \<noteq> []
   \<and> construct_kmer ''AGT'' (py_slice_to ''GTAGTCC'' 2) (py_slice_from ''GTAGTCC'' 5)
        = Inl IndexError
   \<and> searchKmer (lab_world True fasta_short_flank 0 [''repeat''] []) ''chr1'' (StrArg ''100'')
        ''AGT'' ''hg19.fa'' 2 (Some ''trf'')
       = (Inr (PyInt (- 1)),
          [Which ''samtools'', Popen ''samtools faidx hg19.fa chr1:98-105'',
           Popen (trf_cmd ''GTAGTCC'' ''trf'')])"
proof -
  let ?w = "lab_world True fasta_short_flank 0 [''repeat''] []"
  have a: "check_tool ?w ''samtools''" by code_simp
  have b: "fetch_flankseq ?w ''chr1'' (StrArg ''100'') ''AGT'' ''hg19.fa'' 2
             = (Inr ''GTAGTCC'', [Popen ''samtools faidx hg19.fa chr1:98-105''])"
    by code_simp
  have c: "popen_lines ?w (trf_cmd ''GTAGTCC'' ''trf'') \<noteq> []" by code_simp
  have d: "construct_kmer ''AGT'' (py_slice_to ''GTAGTCC'' 2) (py_slice_from ''GTAGTCC'' 5)
             = Inl IndexError"
    by code_simp
  from searchKmer_repeat_first [OF a b c] a b c d show ?thesis by simp
qed

subsection \<open>When the retrieval fails\<close>

lemma fetch_flankseq_exit_status:
  "fetch_flankseq (w\<lparr>popen_exit := status\<rparr>) chrom start ref genome flankSize
     = fetch_flankseq w chrom start ref genome flankSize"
  by (simp add: fetch_flankseq_def Let_def split: sum.splits)

lemma trf_found_exit_status:
  "trf_found (w\<lparr>popen_exit := status\<rparr>) flankseq trfdir = trf_found w flankseq trfdir"
  by (simp add: trf_found_def split: option.splits)

text \<open>
  Claim C7 says that a failed retrieval is signalled as a failure of its own, distinct
  from the empty kmer. Here the retrieval ends with status 1 and prints one line of
  complaint; \<^verbatim>\<open>searchKmer\<close> takes the complaint for the window and returns the empty
  kmer.
\<close>

theorem searchKmer_failed_retrieval_counterexample:
  "faidx_cmd ''chr1'' 100 ''AC'' ''hg19.fa'' 2 = Inr ''samtools faidx hg19.fa chr1:98-104''
   \<and> popen_exit (lab_world True fasta_failed 1 [] []) ''samtools faidx hg19.fa chr1:98-104'' = 1
   \<and> fst (fetch_flankseq (lab_world True fasta_failed 1 [] []) ''chr1'' (StrArg ''100'') ''AC''
            ''hg19.fa'' 2) = Inr ''[faidx] Failed to fetch sequence in chr1:98-104''
   \<and> fst (searchKmer (lab_world True fasta_failed 1 [] []) ''chr1'' (StrArg ''100'') ''AC''
            ''hg19.fa'' 2 None) = Inr (PyStr '''')"
  by code_simp

text \<open>
  Claim C7, amended. \<^verbatim>\<open>searchKmer\<close> has no outcome for a failed retrieval: the exit status
  of the retrieval is never read, so whatever status the command ends with, the result
  and the events are those of a retrieval that printed the same lines.
\<close>

theorem searchKmer_ignores_exit_status:
  "searchKmer (w\<lparr>popen_exit := status\<rparr>) chrom start ref genome flankSize trfdir
     = searchKmer w chrom start ref genome flankSize trfdir"
  by (simp add: searchKmer_def check_tool_def fetch_flankseq_exit_status trf_found_exit_status
      split: prod.splits sum.splits)

section \<open>Properties of the aggregators\<close>

subsection \<open>The size filter\<close>

text \<open>
  Claim C6. For a deletion shorter than \<^verbatim>\<open>minDelSize\<close> the block of lines 160 to 178
  adds one to \<^verbatim>\<open>delFiltered\<close> and changes nothing else (the histogram in particular),
  and leaves no event: \<^verbatim>\<open>searchKmer\<close> was not called, since every call of it leaves at
  least the search for the tool.
\<close>

theorem tally_deletion_filtered:
  assumes "int (length ref) < minDelSize"
  shows "tally_deletion w chrom start ref genome minDelSize flankSize trfdir st
           = (Inr (st\<lparr>delFiltered := delFiltered st + 1\<rparr>), [])
         \<and> snd (searchKmer w chrom start ref genome flankSize trfdir) \<noteq> []"
  using assms
  by (auto simp: tally_deletion_def searchKmer_def Let_def
      split: prod.splits sum.splits bool.splits)

theorem tally_deletion_filtered_witness:
  "int (length ''ACG'') < 5
   \<and> tally_deletion (lab_world True fasta_both 0 [] []) ''chr13'' (StrArg ''100'') ''ACG''
        ''hg19.fa'' 5 100 None new_counts
       = (Inr (new_counts\<lparr>delFiltered := 1\<rparr>), [])"
proof -
  have a: "int (length ''ACG'') < 5" by simp
  from tally_deletion_filtered
         [OF a, of "lab_world True fasta_both 0 [] []" "''chr13''" "StrArg ''100''"
            "''hg19.fa''" 100 None new_counts]
    a show ?thesis by (simp add: new_counts_def)
qed

subsection \<open>The histogram\<close>

lemma new_mhdCount_eq:
  "new_mhdCount =
     [(KInt 0, 0), (KInt 1, 0), (KInt 2, 0), (KInt 3, 0), (KInt 4, 0), (KInt 5, 0),
      (KInt 6, 0), (KInt 7, 0), (KInt 8, 0), (KInt 9, 0), (KStr ''10+'', 0)]"
  by code_simp

lemma new_mhdCount_int_key:
  assumes "0 \<le> i" and "i \<le> 9"
  shows "KInt i \<in> dom (map_of new_mhdCount)"
proof -
  from assms
  have "i = 0 \<or> i = 1 \<or> i = 2 \<or> i = 3 \<or> i = 4 \<or> i = 5 \<or> i = 6 \<or> i = 7 \<or> i = 8 \<or> i = 9"
    by arith
  then show ?thesis by (auto simp: new_mhdCount_eq)
qed

lemma new_mhdCount_str_key: "KStr ''10+'' \<in> dom (map_of new_mhdCount)"
  by (simp add: new_mhdCount_eq)

lemma dict_incr_present:
  assumes "k \<in> dom (map_of d)"
  shows "\<exists>d'. dict_incr k d = Inr d'
           \<and> (\<forall>key. map_of d' key =
                 (if key = k then map_option (\<lambda>c. c + 1) (map_of d key) else map_of d key))"
  using assms by (auto simp: dict_incr_def update_conv')

lemma bump_buckets_present:
  assumes "KInt ` set idx \<subseteq> dom (map_of d)" and "distinct idx"
  shows "\<exists>d'. bump_buckets idx d = Inr d'
           \<and> (\<forall>key. map_of d' key =
                 (if key \<in> KInt ` set idx then map_option (\<lambda>c. c + 1) (map_of d key)
                  else map_of d key))"
  using assms
proof (induction idx arbitrary: d)
  case Nil
  then show ?case by simp
next
  case (Cons i idx)
  from Cons.prems obtain d1 where d1: "dict_incr (KInt i) d = Inr d1"
    "\<forall>key. map_of d1 key =
        (if key = KInt i then map_option (\<lambda>c. c + 1) (map_of d key) else map_of d key)"
    using dict_incr_present [of "KInt i" d] by auto
  have "KInt ` set idx \<subseteq> dom (map_of d1)"
  proof
    fix key
    assume "key \<in> KInt ` set idx"
    with Cons.prems have "key \<in> dom (map_of d)" "key \<noteq> KInt i" by auto
    with d1(2) show "key \<in> dom (map_of d1)" by (simp add: domIff)
  qed
  with Cons.IH [of d1] Cons.prems obtain d2 where d2: "bump_buckets idx d1 = Inr d2"
    "\<forall>key. map_of d2 key =
        (if key \<in> KInt ` set idx then map_option (\<lambda>c. c + 1) (map_of d1 key)
         else map_of d1 key)"
    by auto
  have "bump_buckets (i # idx) d = Inr d2" using d1 d2 by simp
  moreover have "map_of d2 key =
      (if key \<in> KInt ` set (i # idx) then map_option (\<lambda>c. c + 1) (map_of d key)
       else map_of d key)"
    for key
    using d2(2) d1(2) Cons.prems by (cases "key = KInt i") auto
  ultimately show ?case by blast
qed

lemma count_kmer_present:
  assumes "dom (map_of d) = dom (map_of new_mhdCount)"
  shows "\<exists>d'. count_kmer kmer d = Inr d'
           \<and> (\<forall>key. map_of d' key =
                 (if (length kmer < 10 \<and> key \<in> KInt ` {0 .. int (length kmer)})
                      \<or> (10 \<le> length kmer \<and> key = KStr ''10+'')
                  then map_option (\<lambda>c. c + 1) (map_of d key)
                  else map_of d key))"
proof (cases "length kmer < 10")
  case True
  have rng: "py_range 0 (int (length kmer) + 1) 1 = map int [0 ..< Suc (length kmer)]"
    using py_range_up [of "Suc (length kmer)"] by (simp add: add.commute)
  have set_rng: "set (map int [0 ..< Suc (length kmer)]) = {0 .. int (length kmer)}"
  proof (rule set_eqI)
    fix x :: int
    show "x \<in> set (map int [0 ..< Suc (length kmer)]) \<longleftrightarrow> x \<in> {0 .. int (length kmer)}"
    proof
      assume "x \<in> set (map int [0 ..< Suc (length kmer)])"
      then show "x \<in> {0 .. int (length kmer)}" by auto
    next
      assume "x \<in> {0 .. int (length kmer)}"
      then have "x = int (nat x)" "nat x < Suc (length kmer)" by auto
      then show "x \<in> set (map int [0 ..< Suc (length kmer)])"
        by (metis atLeastLessThan_iff atLeastLessThan_upt image_eqI list.set_map zero_le)
    qed
  qed
  have "KInt ` set (map int [0 ..< Suc (length kmer)]) \<subseteq> dom (map_of d)"
  proof
    fix key
    assume "key \<in> KInt ` set (map int [0 ..< Suc (length kmer)])"
    then obtain i where i: "key = KInt i" "0 \<le> i" "i \<le> int (length kmer)"
      unfolding set_rng by auto
    with True have "i \<le> 9" by simp
    with i assms show "key \<in> dom (map_of d)" using new_mhdCount_int_key [of i] by simp
  qed
  moreover have "distinct (map int [0 ..< Suc (length kmer)])"
    by (auto simp: distinct_map inj_on_def)
  ultimately obtain d' where "bump_buckets (map int [0 ..< Suc (length kmer)]) d = Inr d'"
    "\<forall>key. map_of d' key =
       (if key \<in> KInt ` set (map int [0 ..< Suc (length kmer)])
        then map_option (\<lambda>c. c + 1) (map_of d key) else map_of d key)"
    using bump_buckets_present by blast
  then show ?thesis using True unfolding set_rng by (auto simp: count_kmer_def rng)
next
  case False
  have "KStr ''10+'' \<in> dom (map_of d)" using assms by (simp add: new_mhdCount_str_key)
  then obtain d' where "dict_incr (KStr ''10+'') d = Inr d'"
    "\<forall>key. map_of d' key =
       (if key = KStr ''10+'' then map_option (\<lambda>c. c + 1) (map_of d key) else map_of d key)"
    using dict_incr_present by blast
  then show ?thesis using False by (auto simp: count_kmer_def)
qed

text \<open>
  Claim C5. For a deletion that passes the size filter and for which \<^verbatim>\<open>searchKmer\<close>
  returns a kmer of length \<open>k\<close>, the block of lines 160 to 178 changes the histogram and
  nothing else: when \<open>k < 10\<close> each of the buckets 0 to \<open>k\<close> goes up by one and every other
  bucket, \<^verbatim>\<open>'10+'\<close> included, keeps its count; when \<open>k \<ge> 10\<close> the bucket \<^verbatim>\<open>'10+'\<close> goes up by
  one and every other bucket keeps its count. The histogram is assumed to have the
  keys it is created with on line 117, which every histogram of a run has.
\<close>

theorem tally_deletion_histogram:
  assumes "\<not> int (length ref) < minDelSize"
    and "searchKmer w chrom start ref genome flankSize trfdir = (Inr (PyStr kmer), ev)"
    and "dom (map_of (mhdCount st)) = dom (map_of new_mhdCount)"
  shows "\<exists>d. tally_deletion w chrom start ref genome minDelSize flankSize trfdir st
               = (Inr (st\<lparr>mhdCount := d\<rparr>), ev)
           \<and> (\<forall>key. map_of d key =
                 (if (length kmer < 10 \<and> key \<in> KInt ` {0 .. int (length kmer)})
                      \<or> (10 \<le> length kmer \<and> key = KStr ''10+'')
                  then map_option (\<lambda>c. c + 1) (map_of (mhdCount st) key)
                  else map_of (mhdCount st) key))"
proof -
  from count_kmer_present [OF assms(3), of kmer] obtain d where
    d: "count_kmer kmer (mhdCount st) = Inr d"
    and upd: "\<forall>key. map_of d key =
                 (if (length kmer < 10 \<and> key \<in> KInt ` {0 .. int (length kmer)})
                      \<or> (10 \<le> length kmer \<and> key = KStr ''10+'')
                  then map_option (\<lambda>c. c + 1) (map_of (mhdCount st) key)
                  else map_of (mhdCount st) key)"
    by blast
  have "tally_deletion w chrom start ref genome minDelSize flankSize trfdir st
          = (Inr (st\<lparr>mhdCount := d\<rparr>), ev)"
    using assms(1,2) d by (simp add: tally_deletion_def)
  with upd show ?thesis by blast
qed

theorem tally_deletion_histogram_witness:
  "\<not> int (length ''ACGT'') < 4
   \<and> searchKmer (lab_world True fasta_both 0 [] []) ''chr13'' (StrArg ''100'') ''ACGT''
        ''hg19.fa'' 4 None
       = (Inr (PyStr ''GT''), [Which ''samtools'', Popen ''samtools faidx hg19.fa chr13:96-108''])
   \<and> dom (map_of (mhdCount new_counts)) = dom (map_of new_mhdCount)
   \<and> (\<exists>d. tally_deletion (lab_world True fasta_both 0 [] []) ''chr13'' (StrArg ''100'') ''ACGT''
              ''hg19.fa'' 4 4 None new_counts
            = (Inr (new_counts\<lparr>mhdCount := d\<rparr>),
               [Which ''samtools'', Popen ''samtools faidx hg19.fa chr13:96-108''])
          \<and> map_of d (KInt 0) = Some 1 \<and> map_of d (KInt 1) = Some 1
          \<and> map_of d (KInt 2) = Some 1 \<and> map_of d (KInt 3) = Some 0
          \<and> map_of d (KStr ''10+'') = Some 0)"
proof -
  let ?w = "lab_world True fasta_both 0 [] []"
  let ?ev = "[Which ''samtools'', Popen ''samtools faidx hg19.fa chr13:96-108'']"
  have a: "\<not> int (length ''ACGT'') < 4" by simp
  have b: "searchKmer ?w ''chr13'' (StrArg ''100'') ''ACGT'' ''hg19.fa'' 4 None
             = (Inr (PyStr ''GT''), ?ev)"
    by code_simp
  have c: "dom (map_of (mhdCount new_counts)) = dom (map_of new_mhdCount)"
    by (simp add: new_counts_def)
  from tally_deletion_histogram [OF a b c] obtain d where
    run: "tally_deletion ?w ''chr13'' (StrArg ''100'') ''ACGT'' ''hg19.fa'' 4 4 None new_counts
            = (Inr (new_counts\<lparr>mhdCount := d\<rparr>), ?ev)"
    and upd: "\<forall>key. map_of d key =
                 (if (length ''GT'' < 10 \<and> key \<in> KInt ` {0 .. int (length ''GT'')})
                      \<or> (10 \<le> length ''GT'' \<and> key = KStr ''10+'')
                  then map_option (\<lambda>c. c + 1) (map_of (mhdCount new_counts) key)
                  else map_of (mhdCount new_counts) key)"
    by blast
  have "map_of d (KInt 0) = Some 1" "map_of d (KInt 1) = Some 1" "map_of d (KInt 2) = Some 1"
    "map_of d (KInt 3) = Some 0" "map_of d (KStr ''10+'') = Some 0"
    using upd by (simp_all add: new_counts_def new_mhdCount_eq image_iff)
  with run a b c show ?thesis by blast
qed

text \<open>The bucket for ten and more, on a kmer of eleven bases.\<close>

lemma count_kmer_example:
  "count_kmer ''ACGTACGTACG'' new_mhdCount =
     Inr [(KInt 0, 0), (KInt 1, 0), (KInt 2, 0), (KInt 3, 0), (KInt 4, 0), (KInt 5, 0),
          (KInt 6, 0), (KInt 7, 0), (KInt 8, 0), (KInt 9, 0), (KStr ''10+'', 1)]"
  by code_simp

subsection \<open>The histogram keeps its keys\<close>

lemma dict_incr_dom:
  assumes "dict_incr k d = Inr d'"
  shows "dom (map_of d') = dom (map_of d)"
proof -
  from assms obtain v where v: "map_of d k = Some v" "d' = AList.update k (v + 1) d"
    by (auto simp: dict_incr_def split: option.splits)
  then have "k \<in> dom (map_of d)" by auto
  then show ?thesis using v by (simp add: update_conv' insert_absorb)
qed

lemma bump_buckets_dom: "bump_buckets idx d = Inr d' \<Longrightarrow> dom (map_of d') = dom (map_of d)"
proof (induction idx arbitrary: d)
  case Nil
  then show ?case by simp
next
  case (Cons i idx)
  then obtain d1 where d1: "dict_incr (KInt i) d = Inr d1" "bump_buckets idx d1 = Inr d'"
    by (auto split: sum.splits)
  from Cons.IH [OF d1(2)] dict_incr_dom [OF d1(1)] show ?case by simp
qed

lemma count_kmer_dom:
  assumes "count_kmer kmer d = Inr d'"
  shows "dom (map_of d') = dom (map_of d)"
proof (cases "int (length kmer) < 10")
  case True
  with assms show ?thesis by (simp add: count_kmer_def bump_buckets_dom)
next
  case False
  with assms show ?thesis by (simp add: count_kmer_def dict_incr_dom)
qed

text \<open>The three ways in which the block of lines 160 to 178 goes on to the next record.\<close>

lemma tally_deletion_cases:
  assumes "tally_deletion w chrom start ref genome minDelSize flankSize trfdir st = (Inr st', ev)"
  shows "st' = st\<lparr>delFiltered := delFiltered st + 1\<rparr>
         \<or> st' = st\<lparr>trfCount := trfCount st + 1\<rparr>
         \<or> (\<exists>kmer d. count_kmer kmer (mhdCount st) = Inr d \<and> st' = st\<lparr>mhdCount := d\<rparr>)"
  using assms
  by (auto simp: tally_deletion_def split: if_splits prod.splits sum.splits pyval.splits)

lemma tally_deletion_dom:
  assumes "tally_deletion w chrom start ref genome minDelSize flankSize trfdir st = (Inr st', ev)"
  shows "dom (map_of (mhdCount st')) = dom (map_of (mhdCount st))"
  using tally_deletion_cases [OF assms]
proof (elim disjE exE conjE)
  fix kmer d
  assume "count_kmer kmer (mhdCount st) = Inr d" and "st' = st\<lparr>mhdCount := d\<rparr>"
  then show ?thesis by (simp add: count_kmer_dom)
qed simp_all

lemma maf_header_mhdCount: "maf_header lineSplit st = Inr st' \<Longrightarrow> mhdCount st' = mhdCount st"
  by (auto simp: maf_header_def split: sum.splits)

lemma maf_record_cases:
  assumes "maf_record w genome minDelSize flankSize trfdir st lineSplit = (Continue st', ev)"
  shows "st' = st\<lparr>variantCount := variantCount st + 1\<rparr>
         \<or> (\<exists>chrom start ref.
               tally_deletion w chrom start ref genome minDelSize flankSize trfdir
                 (st\<lparr>variantCount := variantCount st + 1, delCount := delCount st + 1\<rparr>)
               = (Inr st', ev))"
  using assms
  by (auto simp: maf_record_def Let_def split: option.splits if_splits prod.splits sum.splits)

lemma maf_record_dom:
  assumes "maf_record w genome minDelSize flankSize trfdir st lineSplit = (Continue st', ev)"
  shows "dom (map_of (mhdCount st')) = dom (map_of (mhdCount st))"
  using maf_record_cases [OF assms]
proof (elim disjE exE)
  fix chrom start ref
  assume "tally_deletion w chrom start ref genome minDelSize flankSize trfdir
            (st\<lparr>variantCount := variantCount st + 1, delCount := delCount st + 1\<rparr>)
          = (Inr st', ev)"
  from tally_deletion_dom [OF this] show ?thesis by simp
qed simp

lemma maf_line_cases:
  assumes "maf_line w genome minDelSize flankSize trfdir st line = (Continue st', ev)"
  shows "(st' = st \<and> ev = [])
         \<or> (maf_header (py_split (CHR 0x09) line) st = Inr st' \<and> ev = [])
         \<or> maf_record w genome minDelSize flankSize trfdir st (py_split (CHR 0x09) line)
             = (Continue st', ev)"
  using assms
  by (auto simp: maf_line_def Let_def split: if_splits sum.splits)

lemma maf_line_dom:
  assumes "maf_line w genome minDelSize flankSize trfdir st line = (Continue st', ev)"
  shows "dom (map_of (mhdCount st')) = dom (map_of (mhdCount st))"
  using maf_line_cases [OF assms]
  by (elim disjE conjE) (simp_all add: maf_header_mhdCount maf_record_dom)

text \<open>A loop that goes through all the lines is a first step and the loop over the rest.\<close>

lemma maf_loop_Cons:
  assumes "maf_loop w genome minDelSize flankSize trfdir st (line # lines) = (Continue st', ev)"
  shows "\<exists>st1 ev1 ev2.
           maf_line w genome minDelSize flankSize trfdir st line = (Continue st1, ev1)
           \<and> maf_loop w genome minDelSize flankSize trfdir st1 lines = (Continue st', ev2)
           \<and> ev = ev1 @ ev2"
  using assms by (auto split: prod.splits flow.splits)

lemma maf_loop_dom:
  "maf_loop w genome minDelSize flankSize trfdir st lines = (Continue st', ev)
     \<Longrightarrow> dom (map_of (mhdCount st')) = dom (map_of (mhdCount st))"
proof (induction lines arbitrary: st ev)
  case Nil
  then show ?case by simp
next
  case (Cons line lines)
  from maf_loop_Cons [OF Cons.prems] obtain st1 ev1 ev2 where
    step: "maf_line w genome minDelSize flankSize trfdir st line = (Continue st1, ev1)"
    and rest: "maf_loop w genome minDelSize flankSize trfdir st1 lines = (Continue st', ev2)"
    by blast
  from Cons.IH [OF rest] maf_line_dom [OF step] show ?case by simp
qed

lemma new_maf_locals_mhdCount: "mhdCount new_maf_locals = new_mhdCount"
  by (simp add: new_maf_locals_def new_counts_def counts.defs)

lemma mafMHD_returns:
  assumes "mafMHD w maf genome minDelSize flankSize trfdir = (Inr (Some (h, info)), ev)"
  shows "\<exists>lines st. file_lines w maf = Some lines
           \<and> maf_loop w genome minDelSize flankSize trfdir new_maf_locals lines = (Continue st, ev)
           \<and> h = mhdCount st \<and> info = sampleInfo st"
  using assms by (auto simp: mafMHD_def split: option.splits prod.splits flow.splits)

lemma mafMHD_histogram_keys:
  assumes "mafMHD w maf genome minDelSize flankSize trfdir = (Inr (Some (h, info)), ev)"
  shows "dom (map_of h) = dom (map_of new_mhdCount)"
proof -
  from mafMHD_returns [OF assms] obtain lines st where
    "maf_loop w genome minDelSize flankSize trfdir new_maf_locals lines = (Continue st, ev)"
    and "h = mhdCount st"
    by blast
  with maf_loop_dom show ?thesis by (simp add: new_maf_locals_mhdCount)
qed

subsection \<open>Every run without the tool\<close>














subsection \<open>A run on a small file\<close>

text \<open>
  Two deletions with \<^verbatim>\<open>minDelSize = 4\<close>: the first, of three bases, is filtered and no
  command is started for it; the second has two bases of microhomology upstream and
  raises the buckets 0, 1 and 2.
\<close>

lemma mafMHD_example:
  "mafMHD (lab_world True fasta_both 0 [] maf_two_dels) ''cohort.maf'' ''hg19.fa'' 4 4 None
     = (Inr (Some ([(KInt 0, 1), (KInt 1, 1), (KInt 2, 1), (KInt 3, 0), (KInt 4, 0),
                    (KInt 5, 0), (KInt 6, 0), (KInt 7, 0), (KInt 8, 0), (KInt 9, 0),
                    (KStr ''10+'', 0)],
                   [(''Total Variants'', 2), (''Deletions'', 2), (''minDelFiltered'', 1),
                    (''Short Tandem Repeat Filtered'', 0)])),
        [Which ''samtools'', Popen ''samtools faidx hg19.fa chr13:96-108''])"
  by code_simp

subsection \<open>\<^verbatim>\<open>vcfMHD\<close> never gets to the variants\<close>

text \<open>The name read on line 211 is bound nowhere.\<close>

lemma vcf_file_unbound: "load_global ''vcf_file'' = Inl NameError"
  by (simp add: load_global_def module_globals_def)

text \<open>
  Claim C10. \<^verbatim>\<open>vcfMHD\<close> never returns: in every world and for every input it ends with an
  exception before any command is started or anything is printed, that is, before any
  variant is looked at. When the import of line 208 succeeds, the exception is the
  \<^verbatim>\<open>NameError\<close> of line 211, whatever \<^verbatim>\<open>VCF(...)\<close> would have given and whatever the
  file holds.
\<close>

theorem vcfMHD_raises:
  "(\<exists>e. vcfMHD w vcf genome minDelSize flankSize trfdir = (Inl e, []))
   \<and> (importable w ''cyvcf2'' \<longrightarrow>
        vcfMHD w vcf genome minDelSize flankSize trfdir = (Inl NameError, []))"
proof (cases "importable w ''cyvcf2''")
  case True
  then have "vcfMHD w vcf genome minDelSize flankSize trfdir = (Inl NameError, [])"
    by (simp add: vcfMHD_def vcf_file_unbound)
  then show ?thesis by simp
next
  case False
  then have "vcfMHD w vcf genome minDelSize flankSize trfdir = (Inl ImportError, [])"
    by (simp add: vcfMHD_def)
  with False show ?thesis by simp
qed

theorem vcfMHD_raises_witness:
  "importable (lab_world True fasta_both 0 [] []) ''cyvcf2''
   \<and> vcfMHD (lab_world True fasta_both 0 [] []) ''calls.vcf'' ''hg19.fa'' 5 100 None
       = (Inl NameError, [])"
proof -
  have a: "importable (lab_world True fasta_both 0 [] []) ''cyvcf2''" by code_simp
  from vcfMHD_raises
         [of "lab_world True fasta_both 0 [] []" "''calls.vcf''" "''hg19.fa''" 5 100 None]
    a show ?thesis by blast
qed

end
